theory Spec2Isabelle
  imports Main "HOL-Library.Sublist"
begin

section \<open>EnvHolster: rotation over environment keys (src/index.ts)\<close>

text \<open>
  The module rotates through the values of the environment variables whose names start
  with a given base name and keeps the rotation cursor in memory, in a file or in a
  MongoDB collection. The embedding below follows \<^verbatim>\<open>src/index.ts\<close> function by
  function. Asynchronous functions are modelled as sequential state transformers on a
  \<open>world\<close>; a thrown \<^verbatim>\<open>Error\<close> is the \<open>Inl\<close> branch of a sum.

  Conventions of the model:
  \<^item> a JavaScript \<^verbatim>\<open>number\<close> that holds a cursor is an \<open>int\<close> (fractions, NaN and the
    infinities of doubles are not modelled);
  \<^item> \<^verbatim>\<open>undefined\<close> as the result of indexing an array out of range is \<open>None\<close>;
  \<^item> the cache file and the documents of the collection hold values of the declared
    type \<^verbatim>\<open>Cache\<close>; a file is kept as what \<^verbatim>\<open>JSON.parse\<close> makes of its text, either a
    parse failure or a \<^verbatim>\<open>Cache\<close> object (a text that parses to any other value is not
    modelled);
  \<^item> \<^verbatim>\<open>memoryCaches\<close> is a map from names to caches (members inherited from the
    object prototype are not modelled) and \<^verbatim>\<open>path.join\<close> is string concatenation;
  \<^item> every operation of a collaborator that can throw (\<^verbatim>\<open>fs.readFile\<close>,
    \<^verbatim>\<open>fs.writeFile\<close>, \<^verbatim>\<open>client.connect\<close>, \<^verbatim>\<open>findOne\<close>, \<^verbatim>\<open>insertOne\<close>,
    \<^verbatim>\<open>updateOne\<close>) consumes the head of the script \<open>faults\<close>: \<open>Some m\<close> makes it throw
    an error with message \<open>m\<close>, \<open>None\<close> or an exhausted script lets it run. Each such
    operation and each \<^verbatim>\<open>setTimeout\<close> is appended to \<open>trace\<close>.
\<close>

subsection \<open>Data\<close>

record Cache =
  index :: int

record EnvKeyResult =
  key :: "string option"
  index :: int
  message :: string

datatype storage = DISK | MEMORY | DATABASE

record GetNextEnvKeyParams =
  baseEnvName :: string
  storage :: "storage option"

datatype error = Error string

fun error_message :: "error \<Rightarrow> string" where
  "error_message (Error m) = m"

datatype MongoClient = MongoClient string

datatype Db = Db string

datatype file_content = Malformed | Json Cache

datatype event =
    ReadFile string
  | WriteFile string file_content
  | Connect string
  | SetTimeout nat
  | FindOne string
  | InsertOne string int
  | UpdateOne string int

record world =
  process_env :: "(string \<times> string) list"
  dirname :: string
  dbUsername :: string
  dbPassword :: string
  dbName :: string
  dbClusterName :: string
  uri :: string
  client :: "MongoClient option"
  db :: "Db option"
  memoryCaches :: "string \<rightharpoonup> Cache"
  files :: "string \<rightharpoonup> file_content"
  fileIndex :: "string \<rightharpoonup> int"
  faults :: "string option list"
  trace :: "event list"

subsection \<open>JavaScript primitives\<close>

text \<open>The remainder operator \<^verbatim>\<open>%\<close>: the result has the sign of the dividend.\<close>

definition js_rem :: "int \<Rightarrow> int \<Rightarrow> int" where
  "js_rem a b = sgn a * (\<bar>a\<bar> mod \<bar>b\<bar>)"

text \<open>Array indexing \<^verbatim>\<open>xs[i]\<close>: \<^verbatim>\<open>undefined\<close> outside the array.\<close>

definition js_index :: "'a list \<Rightarrow> int \<Rightarrow> 'a option" where
  "js_index xs i = (if 0 \<le> i \<and> i < int (length xs) then Some (xs ! nat i) else None)"

text \<open>Decimal rendering of a number inside a template literal.\<close>

definition digit_char :: "nat \<Rightarrow> char" where
  "digit_char d = ''0123456789'' ! d"

function digits_of :: "nat \<Rightarrow> string" where
  "digits_of n = (if 10 \<le> n then digits_of (n div 10) @ [digit_char (n mod 10)] else [digit_char n])"
  by pat_completeness auto
termination
  by (relation "measure id") auto

declare digits_of.simps [simp del]

definition number_toString :: "int \<Rightarrow> string" where
  "number_toString i = (if 0 \<le> i then digits_of (nat i) else CHR ''-'' # digits_of (nat (- i)))"

text \<open>
  One operation of a collaborator: it is recorded in the trace and takes its outcome
  from the script.
\<close>

definition attempt :: "event \<Rightarrow> world \<Rightarrow> string option \<times> world" where
  "attempt ev w =
     (case faults w of
        [] \<Rightarrow> (None, w\<lparr>trace := trace w @ [ev]\<rparr>)
      | f # fs \<Rightarrow> (f, w\<lparr>faults := fs, trace := trace w @ [ev]\<rparr>))"

definition setTimeout :: "nat \<Rightarrow> world \<Rightarrow> world" where
  "setTimeout ms w = w\<lparr>trace := trace w @ [SetTimeout ms]\<rparr>"

definition fs_readFile :: "string \<Rightarrow> world \<Rightarrow> (error + file_content) \<times> world" where
  "fs_readFile p w =
     (case attempt (ReadFile p) w of
        (Some m, w') \<Rightarrow> (Inl (Error m), w')
      | (None, w') \<Rightarrow>
          (case files w' p of
             None \<Rightarrow> (Inl (Error ''ENOENT: no such file or directory''), w')
           | Some c \<Rightarrow> (Inr c, w')))"

definition fs_writeFile :: "string \<Rightarrow> file_content \<Rightarrow> world \<Rightarrow> (error + unit) \<times> world" where
  "fs_writeFile p c w =
     (case attempt (WriteFile p c) w of
        (Some m, w') \<Rightarrow> (Inl (Error m), w')
      | (None, w') \<Rightarrow> (Inr (), w'\<lparr>files := (files w')(p \<mapsto> c)\<rparr>))"

fun JSON_parse :: "file_content \<Rightarrow> error + Cache" where
  "JSON_parse Malformed = Inl (Error ''Unexpected token in JSON'')"
| "JSON_parse (Json c) = Inr c"

definition JSON_stringify :: "Cache \<Rightarrow> file_content" where
  "JSON_stringify c = Json c"

definition findOne :: "string \<Rightarrow> world \<Rightarrow> (error + int option) \<times> world" where
  "findOne name w =
     (case attempt (FindOne name) w of
        (Some m, w') \<Rightarrow> (Inl (Error m), w')
      | (None, w') \<Rightarrow> (Inr (fileIndex w' name), w'))"

definition insertOne :: "string \<Rightarrow> int \<Rightarrow> world \<Rightarrow> (error + unit) \<times> world" where
  "insertOne name i w =
     (case attempt (InsertOne name i) w of
        (Some m, w') \<Rightarrow> (Inl (Error m), w')
      | (None, w') \<Rightarrow> (Inr (), w'\<lparr>fileIndex := (fileIndex w')(name \<mapsto> i)\<rparr>))"

text \<open>\<^verbatim>\<open>updateOne\<close> is called without \<^verbatim>\<open>upsert\<close>: it changes a document that exists.\<close>

definition updateOne :: "string \<Rightarrow> int \<Rightarrow> world \<Rightarrow> (error + unit) \<times> world" where
  "updateOne name i w =
     (case attempt (UpdateOne name i) w of
        (Some m, w') \<Rightarrow> (Inl (Error m), w')
      | (None, w') \<Rightarrow>
          (Inr (), (case fileIndex w' name of
                      None \<Rightarrow> w'
                    | Some _ \<Rightarrow> w'\<lparr>fileIndex := (fileIndex w')(name \<mapsto> i)\<rparr>)))"

subsection \<open>Module constants\<close>

text \<open>
  The destructuring of \<^verbatim>\<open>process.env\<close> at load time: a default applies when the
  variable is not set. \<^verbatim>\<open>encodeURIComponent\<close> is a parameter.
\<close>

definition env_or :: "(string \<times> string) list \<Rightarrow> string \<Rightarrow> string \<Rightarrow> string" where
  "env_or env k d = (case map_of env k of None \<Rightarrow> d | Some v \<Rightarrow> v)"

definition load_module ::
  "(string \<Rightarrow> string) \<Rightarrow> (string \<times> string) list \<Rightarrow> string \<Rightarrow>
   (string \<rightharpoonup> file_content) \<Rightarrow> (string \<rightharpoonup> int) \<Rightarrow> string option list \<Rightarrow> world" where
  "load_module encodeURIComponent env dir fs coll script =
     \<lparr>process_env = env,
      dirname = dir,
      dbUsername = env_or env ''DB_USERNAME'' '''',
      dbPassword = env_or env ''DB_PASSWORD'' '''',
      dbName = env_or env ''DB_NAME'' ''defaultDbName'',
      dbClusterName = env_or env ''DB_CLUSTER'' ''defaultClusterName'',
      uri = ''mongodb+srv://'' @ encodeURIComponent (env_or env ''DB_USERNAME'' '''') @ '':''
            @ encodeURIComponent (env_or env ''DB_PASSWORD'' '''') @ ''@''
            @ env_or env ''DB_CLUSTER'' ''defaultClusterName'' @ ''/?retryWrites=true&w=majority'',
      client = None,
      db = None,
      memoryCaches = Map.empty,
      files = fs,
      fileIndex = coll,
      faults = script,
      trace = []\<rparr>"

subsection \<open>MongoDB connection\<close>

function connectWithRetry_loop ::
  "string \<Rightarrow> nat \<Rightarrow> nat \<Rightarrow> world \<Rightarrow> (error + MongoClient) \<times> world" where
  "connectWithRetry_loop u attempts attempt_no w =
     (if attempt_no \<le> attempts then
        (case attempt (Connect u) w of
           (None, w') \<Rightarrow> (Inr (MongoClient u), w')
         | (Some m, w') \<Rightarrow>
             (if attempt_no < attempts
              then connectWithRetry_loop u attempts (attempt_no + 1) (setTimeout (1000 * attempt_no) w')
              else (Inl (Error m), w')))
      else (Inl (Error ''Connection attempts exceeded.''), w))"
  by pat_completeness auto
termination
  by (relation "measure (\<lambda>(u, attempts, attempt_no, w). Suc attempts - attempt_no)") auto

declare connectWithRetry_loop.simps [simp del]

definition connectWithRetry :: "string \<Rightarrow> nat \<Rightarrow> world \<Rightarrow> (error + MongoClient) \<times> world" where
  "connectWithRetry u attempts w = connectWithRetry_loop u attempts 1 w"

definition connectToMongo :: "world \<Rightarrow> (error + Db option) \<times> world" where
  "connectToMongo w =
     (case client w of
        None \<Rightarrow>
          (case connectWithRetry (uri w) 5 w of
             (Inl e, w') \<Rightarrow> (Inl e, w')
           | (Inr c, w') \<Rightarrow>
               (Inr (Some (Db (dbName w'))), w'\<lparr>client := Some c, db := Some (Db (dbName w'))\<rparr>))
      | Some _ \<Rightarrow> (Inr (db w), w))"

text \<open>
  \<^verbatim>\<open>db.collection('fileIndex')\<close>: the handle is the unit value; on a \<^verbatim>\<open>null\<close>
  database the property access throws a TypeError.
\<close>

definition getFileIndexCollection :: "world \<Rightarrow> (error + unit) \<times> world" where
  "getFileIndexCollection w =
     (case connectToMongo w of
        (Inl e, w') \<Rightarrow> (Inl e, w')
      | (Inr None, w') \<Rightarrow>
          (Inl (Error (''Cannot read properties of null (reading '' @ [CHR 0x27] @ ''collection''
                       @ [CHR 0x27] @ '')'')), w')
      | (Inr (Some _), w') \<Rightarrow> (Inr (), w'))"

subsection \<open>Environment keys\<close>

text \<open>
  \<^verbatim>\<open>Object.keys(process.env)\<close> is the list of names; \<^verbatim>\<open>process.env[envKey]\<close> is a
  lookup; \<^verbatim>\<open>filter(Boolean)\<close> drops \<^verbatim>\<open>undefined\<close> and the empty string.
\<close>

definition Boolean :: "string option \<Rightarrow> bool" where
  "Boolean v = (case v of None \<Rightarrow> False | Some s \<Rightarrow> s \<noteq> [])"

definition getEnvKeys :: "(string \<times> string) list \<Rightarrow> string \<Rightarrow> string list" where
  "getEnvKeys env base =
     map the (filter Boolean (map (\<lambda>envKey. map_of env envKey)
       (filter (\<lambda>envKey. prefix base envKey) (map fst env))))"

subsection \<open>The three handlers\<close>

definition cacheFilePath :: "world \<Rightarrow> string \<Rightarrow> string" where
  "cacheFilePath w base = dirname w @ ''/env_cache_'' @ base @ ''.json''"

definition handleDiskStorage :: "string list \<Rightarrow> string \<Rightarrow> world \<Rightarrow> (error + EnvKeyResult) \<times> world" where
  "handleDiskStorage envKeys path w =
     (let (r, w1) = fs_readFile path w;
          cache = (case r of
                     Inl _ \<Rightarrow> \<lparr>Cache.index = 0\<rparr>
                   | Inr text \<Rightarrow> (case JSON_parse text of Inl _ \<Rightarrow> \<lparr>Cache.index = 0\<rparr> | Inr c \<Rightarrow> c));
          k = js_index envKeys (Cache.index cache)
      in if length envKeys > 1 then
           (let cache' = cache\<lparr>Cache.index := js_rem (Cache.index cache + 1) (int (length envKeys))\<rparr>
            in case fs_writeFile path (JSON_stringify cache') w1 of
                 (Inl e, w2) \<Rightarrow> (Inl e, w2)
               | (Inr _, w2) \<Rightarrow>
                   (Inr \<lparr>key = k, index = Cache.index cache',
                         message = ''Successfully retrieved the key and updated the file cache. Current index: ''
                                   @ number_toString (Cache.index cache')\<rparr>, w2))
         else (Inr \<lparr>key = k, index = Cache.index cache,
                    message = ''Successfully retrieved the key. Only one key available, index remains 0.''\<rparr>, w1))"

definition handleMemoryStorage :: "string list \<Rightarrow> string \<Rightarrow> world \<Rightarrow> EnvKeyResult \<times> world" where
  "handleMemoryStorage envKeys base w =
     (let w1 = (case memoryCaches w base of
                  None \<Rightarrow> w\<lparr>memoryCaches := (memoryCaches w)(base \<mapsto> \<lparr>Cache.index = 0\<rparr>)\<rparr>
                | Some _ \<Rightarrow> w);
          cache = the (memoryCaches w1 base);
          k = js_index envKeys (Cache.index cache);
          w2 = (if length envKeys > 1
                then w1\<lparr>memoryCaches := (memoryCaches w1)(base \<mapsto>
                          cache\<lparr>Cache.index := js_rem (Cache.index cache + 1) (int (length envKeys))\<rparr>)\<rparr>
                else w1);
          i = Cache.index (the (memoryCaches w2 base))
      in (\<lparr>key = k, index = i,
           message = (if length envKeys > 1
                      then ''Successfully retrieved the key and updated the memory cache. Current index: ''
                           @ number_toString i
                      else ''Successfully retrieved the key. Only one key available, index remains 0.'')\<rparr>,
          w2))"

definition handleDatabaseStorage :: "string list \<Rightarrow> string \<Rightarrow> world \<Rightarrow> (error + EnvKeyResult) \<times> world" where
  "handleDatabaseStorage envKeys base w =
     (if dbUsername w = [] \<or> dbPassword w = [] \<or> dbName w = [] then
        (Inl (Error ''DB_USERNAME, DB_PASSWORD, and DB_NAME environment variables must be set for database storage.''), w)
      else
        (case getFileIndexCollection w of
           (Inl e, w1) \<Rightarrow> (Inl e, w1)
         | (Inr _, w1) \<Rightarrow>
             (case findOne (''envCache_'' @ base) w1 of
                (Inl e, w2) \<Rightarrow> (Inl e, w2)
              | (Inr cacheDoc, w2) \<Rightarrow>
                  (case (case cacheDoc of
                           None \<Rightarrow> (case insertOne (''envCache_'' @ base) 0 w2 of
                                      (Inl e, w3) \<Rightarrow> (Inl e, w3)
                                    | (Inr _, w3) \<Rightarrow> (Inr 0, w3))
                         | Some i \<Rightarrow> (Inr i, w2)) of
                     (Inl e, w3) \<Rightarrow> (Inl e, w3)
                   | (Inr i, w3) \<Rightarrow>
                       (let k = js_index envKeys i
                        in if length envKeys > 1 then
                             (let i' = js_rem (i + 1) (int (length envKeys))
                              in case updateOne (''envCache_'' @ base) i' w3 of
                                   (Inl e, w4) \<Rightarrow> (Inl e, w4)
                                 | (Inr _, w4) \<Rightarrow>
                                     (Inr \<lparr>key = k, index = i',
                                           message = ''Successfully retrieved the key and updated the database cache. Current index: ''
                                                     @ number_toString i'\<rparr>, w4))
                           else (Inr \<lparr>key = k, index = 0,
                                      message = ''Successfully retrieved the key. Only one key available, index remains 0.''\<rparr>,
                                 w3))))))"

subsection \<open>The public operation\<close>

text \<open>The default of the parameter: \<^verbatim>\<open>storage = 'DATABASE'\<close>.\<close>

definition storage_or_default :: "GetNextEnvKeyParams \<Rightarrow> storage" where
  "storage_or_default p = (case storage p of None \<Rightarrow> DATABASE | Some s \<Rightarrow> s)"

text \<open>The body of the \<^verbatim>\<open>try\<close> block of \<^verbatim>\<open>getNextEnvKey\<close>.\<close>

definition getNextEnvKey_try :: "GetNextEnvKeyParams \<Rightarrow> world \<Rightarrow> (error + EnvKeyResult) \<times> world" where
  "getNextEnvKey_try p w =
     (let envKeys = getEnvKeys (process_env w) (baseEnvName p)
      in if length envKeys = 0 then
           (Inl (Error (''No environment variables found with base name '' @ baseEnvName p @ ''.'')), w)
         else if length envKeys = 1 then
           (Inr \<lparr>key = js_index envKeys 0, index = 0,
                 message = ''Only one key available, using key with index 0.''\<rparr>, w)
         else
           (case storage_or_default p of
              DATABASE \<Rightarrow> handleDatabaseStorage envKeys (baseEnvName p) w
            | MEMORY \<Rightarrow> (case handleMemoryStorage envKeys (baseEnvName p) w of (r, w') \<Rightarrow> (Inr r, w'))
            | DISK \<Rightarrow> handleDiskStorage envKeys (cacheFilePath w (baseEnvName p)) w))"

text \<open>The \<^verbatim>\<open>catch\<close> block turns every thrown error into a result.\<close>

definition getNextEnvKey :: "GetNextEnvKeyParams \<Rightarrow> world \<Rightarrow> EnvKeyResult \<times> world" where
  "getNextEnvKey p w =
     (case getNextEnvKey_try p w of
        (Inr r, w') \<Rightarrow> (r, w')
      | (Inl e, w') \<Rightarrow> (\<lparr>key = Some '''', index = 0, message = ''Error: '' @ error_message e\<rparr>, w'))"


subsection \<open>Observations, scripts and example worlds\<close>

text \<open>The part of the world that the module reads and never writes.\<close>

definition config :: "world \<Rightarrow> (string \<times> string) list \<times> string \<times> string \<times> string \<times> string \<times> string \<times> string" where
  "config w = (process_env w, dirname w, dbUsername w, dbPassword w, dbName w, dbClusterName w, uri w)"

text \<open>An environment with three usable keys under one prefix and a single key under another.\<close>

definition example_env :: "(string \<times> string) list" where
  "example_env =
     [(''API_KEY_1'', ''alpha''), (''HOME'', ''/root''), (''API_KEY_2'', ''''),
      (''API_KEY_3'', ''beta''), (''DB_USERNAME'', ''user''), (''DB_PASSWORD'', ''secret''),
      (''SOLO_KEY'', ''only''), (''API_KEY_4'', ''gamma'')]"

definition example_world :: "string option list \<Rightarrow> world" where
  "example_world script = load_module (\<lambda>s. s) example_env ''/app/dist'' Map.empty Map.empty script"



text \<open>The message of a successful rotation, as the three handlers build it.\<close>

definition backend_name :: "storage \<Rightarrow> string" where
  "backend_name s = (case s of DISK \<Rightarrow> ''file'' | MEMORY \<Rightarrow> ''memory'' | DATABASE \<Rightarrow> ''database'')"

definition success_message :: "storage \<Rightarrow> int \<Rightarrow> string" where
  "success_message s i =
     ''Successfully retrieved the key and updated the '' @ backend_name s
     @ '' cache. Current index: '' @ number_toString i"


text \<open>A world whose file and document hold a cursor beyond the three candidates.\<close>

definition stale_world :: world where
  "stale_world =
     load_module (\<lambda>s. s) example_env ''/app/dist''
       [''/app/dist/env_cache_API_KEY_.json'' \<mapsto> Json \<lparr>Cache.index = 7\<rparr>]
       [''envCache_API_KEY_'' \<mapsto> 7] []"

text \<open>
  Reading the script: the outcome planned for the operation after the next \<open>k\<close> ones, and
  the number of operations that fail before the first one that runs.
\<close>

definition next_fault :: "world \<Rightarrow> nat \<Rightarrow> string option" where
  "next_fault w k = (if k < length (faults w) then faults w ! k else None)"

definition failed_first :: "world \<Rightarrow> nat" where
  "failed_first w = length (takeWhile (\<lambda>f. f \<noteq> None) (faults w))"

text \<open>
  The events of \<open>j\<close> failed connection attempts, each followed by its delay, and of one
  more attempt.
\<close>

definition backoff_trace :: "string \<Rightarrow> nat \<Rightarrow> event list" where
  "backoff_trace u j = concat (map (\<lambda>k. [Connect u, SetTimeout (1000 * k)]) [1..<Suc j]) @ [Connect u]"

text \<open>Connection attempts and requested delays in a list of events.\<close>

fun connects :: "event list \<Rightarrow> nat" where
  "connects [] = 0"
| "connects (Connect u # es) = Suc (connects es)"
| "connects (e # es) = connects es"

fun delays :: "event list \<Rightarrow> nat list" where
  "delays [] = []"
| "delays (SetTimeout ms # es) = ms # delays es"
| "delays (e # es) = delays es"

text \<open>The events that a computation adds to the trace.\<close>

definition events_of :: "(world \<Rightarrow> 'a \<times> world) \<Rightarrow> world \<Rightarrow> event list" where
  "events_of f w = drop (length (trace w)) (trace (snd (f w)))"

text \<open>A script in which five operations in a row fail.\<close>

definition all_down :: "string option list" where
  "all_down = [Some ''down 1'', Some ''down 2'', Some ''down 3'', Some ''down 4'', Some ''down 5'']"

text \<open>
  The \<^verbatim>\<open>try\<close> block of \<open>handleDiskStorage\<close> fails: \<^verbatim>\<open>fs.readFile\<close> throws (the file
  is missing or unreadable) or \<^verbatim>\<open>JSON.parse\<close> throws (the content is malformed).
\<close>

definition cache_read_fails :: "string \<Rightarrow> world \<Rightarrow> bool" where
  "cache_read_fails path w =
     (case fst (fs_readFile path w) of
        Inl _ \<Rightarrow> True
      | Inr text \<Rightarrow> (case JSON_parse text of Inl _ \<Rightarrow> True | Inr _ \<Rightarrow> False))"


text \<open>The script read as a list.\<close>

definition fault_at :: "string option list \<Rightarrow> nat \<Rightarrow> string option" where
  "fault_at fs k = (if k < length fs then fs ! k else None)"

text \<open>
  The example world with a cached client, and a world whose environment sets none of
  the database variables.
\<close>

definition connected_world :: "string option list \<Rightarrow> world" where
  "connected_world script =
     (example_world script)\<lparr>client := Some (MongoClient ''srv''), db := Some (Db ''defaultDbName'')\<rparr>"

definition bare_world :: world where
  "bare_world =
     load_module (\<lambda>s. s) [(''TOKEN_A'', ''one''), (''TOKEN_B'', ''two'')] ''/app/dist''
       Map.empty Map.empty []"

text \<open>The result that the \<^verbatim>\<open>catch\<close> block builds from an error message.\<close>

definition failure_result :: "string \<Rightarrow> EnvKeyResult" where
  "failure_result d = \<lparr>key = Some '''', index = 0, message = ''Error: '' @ d\<rparr>"





section \<open>Properties\<close>

subsection \<open>The configuration is never written\<close>

lemma attempt_config: "attempt ev w = (r, w') \<Longrightarrow> config w' = config w"
  by (auto simp: attempt_def config_def split: list.splits)

lemma setTimeout_config: "config (setTimeout ms w) = config w"
  by (simp add: setTimeout_def config_def)

lemma fs_readFile_config: "fs_readFile p w = (r, w') \<Longrightarrow> config w' = config w"
  by (auto simp: fs_readFile_def split: prod.splits option.splits dest: attempt_config)

lemma fs_writeFile_config: "fs_writeFile p c w = (r, w') \<Longrightarrow> config w' = config w"
  by (auto simp: fs_writeFile_def config_def attempt_def split: prod.splits option.splits list.splits)

lemma findOne_config: "findOne n w = (r, w') \<Longrightarrow> config w' = config w"
  by (auto simp: findOne_def split: prod.splits option.splits dest: attempt_config)

lemma insertOne_config: "insertOne n i w = (r, w') \<Longrightarrow> config w' = config w"
  by (auto simp: insertOne_def config_def attempt_def split: prod.splits option.splits list.splits)

lemma updateOne_config: "updateOne n i w = (r, w') \<Longrightarrow> config w' = config w"
  by (auto simp: updateOne_def config_def attempt_def split: prod.splits option.splits list.splits)

lemma connectWithRetry_loop_config:
  "connectWithRetry_loop u a k w = (r, w') \<Longrightarrow> config w' = config w"
proof (induction u a k w arbitrary: r w' rule: connectWithRetry_loop.induct)
  case (1 u attempts attempt_no w)
  show ?case
  proof (cases "attempt_no \<le> attempts")
    case False
    with "1.prems" show ?thesis by (simp add: connectWithRetry_loop.simps)
  next
    case True
    obtain f w1 where a: "attempt (Connect u) w = (f, w1)" by (cases "attempt (Connect u) w")
    show ?thesis
    proof (cases f)
      case None
      with "1.prems" True a show ?thesis by (auto simp: connectWithRetry_loop.simps dest: attempt_config)
    next
      case (Some m)
      show ?thesis
      proof (cases "attempt_no < attempts")
        case True
        with "1.prems" \<open>attempt_no \<le> attempts\<close> a Some
        have "connectWithRetry_loop u attempts (attempt_no + 1) (setTimeout (1000 * attempt_no) w1) = (r, w')"
          by (simp add: connectWithRetry_loop.simps)
        from "1.IH"[OF \<open>attempt_no \<le> attempts\<close> a[symmetric] Some True this]
        show ?thesis using attempt_config[OF a] by (simp add: setTimeout_config)
      next
        case False
        with "1.prems" True a Some show ?thesis by (auto simp: connectWithRetry_loop.simps dest: attempt_config)
      qed
    qed
  qed
qed

lemma config_client_db [simp]: "config (w\<lparr>client := c, db := d\<rparr>) = config w"
  by (simp add: config_def)

lemma connectToMongo_config: "connectToMongo w = (r, w') \<Longrightarrow> config w' = config w"
  by (auto simp: connectToMongo_def connectWithRetry_def split: option.splits prod.splits sum.splits
      dest!: connectWithRetry_loop_config)

lemma getFileIndexCollection_config: "getFileIndexCollection w = (r, w') \<Longrightarrow> config w' = config w"
  by (auto simp: getFileIndexCollection_def split: option.splits prod.splits sum.splits
      dest: connectToMongo_config)

lemma handleDiskStorage_config: "handleDiskStorage ks p w = (r, w') \<Longrightarrow> config w' = config w"
  by (auto simp: handleDiskStorage_def Let_def split: option.splits prod.splits sum.splits if_splits
      dest!: fs_readFile_config fs_writeFile_config)

lemma handleMemoryStorage_config: "handleMemoryStorage ks b w = (r, w') \<Longrightarrow> config w' = config w"
  by (auto simp: handleMemoryStorage_def Let_def config_def split: option.splits if_splits)

lemma handleDatabaseStorage_config: "handleDatabaseStorage ks b w = (r, w') \<Longrightarrow> config w' = config w"
  by (auto simp: handleDatabaseStorage_def Let_def split: option.splits prod.splits sum.splits if_splits
      dest!: getFileIndexCollection_config findOne_config insertOne_config updateOne_config)

lemma getNextEnvKey_try_config: "getNextEnvKey_try p w = (r, w') \<Longrightarrow> config w' = config w"
  by (auto simp: getNextEnvKey_try_def Let_def split: option.splits prod.splits storage.splits if_splits
      dest!: handleDiskStorage_config handleMemoryStorage_config handleDatabaseStorage_config)

lemma getNextEnvKey_config: "config (snd (getNextEnvKey p w)) = config w"
  by (auto simp: getNextEnvKey_def split: prod.splits sum.splits dest: getNextEnvKey_try_config)

subsection \<open>The key set resolver\<close>

lemma lookup_filter_values:
  "\<forall>(k, v) \<in> set xs. f k = Some v \<Longrightarrow>
   map the (filter Boolean (map f (filter (\<lambda>envKey. prefix base envKey) (map fst xs))))
   = map snd (filter (\<lambda>(k, v). prefix base k \<and> v \<noteq> []) xs)"
  by (induction xs) (auto simp: Boolean_def)

lemma getEnvKeys_distinct:
  assumes "distinct (map fst env)"
  shows "getEnvKeys env base = map snd (filter (\<lambda>(k, v). prefix base k \<and> v \<noteq> []) env)"
  unfolding getEnvKeys_def using assms by (intro lookup_filter_values) auto

text \<open>
  Claim C8. For every prefix and every environment (names are distinct, as in
  \<^verbatim>\<open>process.env\<close>), \<open>getEnvKeys\<close> returns the values of the entries whose names start
  with the prefix, in the order of enumeration, without the empty values. It is a total
  function of the environment and returns a list, never an error; a call of
  \<open>getNextEnvKey\<close> leaves the environment as it was, so resolving again after a call
  gives the same list.
\<close>

theorem getEnvKeys_resolves_prefixed_values:
  assumes "distinct (map fst (process_env w))"
  shows "getEnvKeys (process_env w) base
           = map snd (filter (\<lambda>(k, v). prefix base k \<and> v \<noteq> []) (process_env w))
         \<and> getEnvKeys (process_env (snd (getNextEnvKey p w))) base = getEnvKeys (process_env w) base"
proof -
  have "process_env (snd (getNextEnvKey p w)) = process_env w"
    using getNextEnvKey_config [of p w] by (simp add: config_def)
  then show ?thesis using getEnvKeys_distinct [OF assms] by simp
qed

theorem getEnvKeys_resolves_prefixed_values_witness:
  "distinct (map fst (process_env (example_world [])))
   \<and> getEnvKeys (process_env (example_world [])) ''API_KEY_'' = [''alpha'', ''beta'', ''gamma'']
   \<and> getEnvKeys (process_env (snd (getNextEnvKey \<lparr>baseEnvName = ''API_KEY_'', storage = Some MEMORY\<rparr> (example_world []))))
        ''API_KEY_'' = [''alpha'', ''beta'', ''gamma'']"
proof -
  have h: "distinct (map fst (process_env (example_world [])))"
    by (simp add: example_world_def load_module_def example_env_def)
  have e: "process_env (example_world []) = example_env"
    by (simp add: example_world_def load_module_def)
  show ?thesis
    using h getEnvKeys_resolves_prefixed_values [OF h, of "''API_KEY_''" "\<lparr>baseEnvName = ''API_KEY_'', storage = Some MEMORY\<rparr>"]
    by (simp add: e example_env_def)
qed

subsection \<open>No candidate, one candidate\<close>

text \<open>
  Claim C9. When no entry of the environment has a name that starts with the prefix,
  \<open>getNextEnvKey\<close> returns the empty key, index 0 and the message that no environment
  variables were found, for every storage selector and every world. The world is
  returned unchanged: no store is accessed, nothing is retried.
\<close>

theorem no_candidates_error_result:
  assumes "\<forall>k \<in> set (map fst (process_env w)). \<not> prefix (baseEnvName p) k"
  shows "getNextEnvKey p w =
           (\<lparr>key = Some '''', index = 0,
             message = ''Error: No environment variables found with base name '' @ baseEnvName p @ ''.''\<rparr>, w)"
proof -
  have "filter (\<lambda>envKey. prefix (baseEnvName p) envKey) (map fst (process_env w)) = []"
    using assms by (simp add: filter_empty_conv)
  then have "getEnvKeys (process_env w) (baseEnvName p) = []"
    by (simp add: getEnvKeys_def)
  then show ?thesis
    by (simp add: getNextEnvKey_def getNextEnvKey_try_def)
qed

theorem no_candidates_error_result_witness:
  "getNextEnvKey \<lparr>baseEnvName = ''NOPE'', storage = None\<rparr> (example_world []) =
       (\<lparr>key = Some '''', index = 0,
         message = ''Error: No environment variables found with base name NOPE.''\<rparr>, example_world [])"
proof -
  have h: "\<forall>k \<in> set (map fst (process_env (example_world []))). \<not> prefix (baseEnvName \<lparr>baseEnvName = ''NOPE'', storage = None\<rparr>) k"
    by (simp add: example_world_def load_module_def example_env_def)
  show ?thesis
    using no_candidates_error_result [OF h] by simp
qed

text \<open>
  Claim C3. When exactly one candidate exists, \<open>getNextEnvKey\<close> returns that candidate
  with index 0 and returns the world unchanged, whatever the storage selector, the
  credentials and the script are: the trace gains no file, connection or collection
  operation, and the memory map, the files and the collection are as before.
\<close>

theorem single_candidate_fast_path:
  assumes "getEnvKeys (process_env w) (baseEnvName p) = [v]"
  shows "getNextEnvKey p w =
           (\<lparr>key = Some v, index = 0, message = ''Only one key available, using key with index 0.''\<rparr>, w)"
  using assms by (simp add: getNextEnvKey_def getNextEnvKey_try_def js_index_def)

theorem single_candidate_fast_path_witness:
  "getEnvKeys (process_env (example_world [Some ''down''])) ''SOLO'' = [''only'']
   \<and> getNextEnvKey \<lparr>baseEnvName = ''SOLO'', storage = Some DATABASE\<rparr> (example_world [Some ''down'']) =
       (\<lparr>key = Some ''only'', index = 0, message = ''Only one key available, using key with index 0.''\<rparr>,
        example_world [Some ''down''])"
proof -
  have h: "getEnvKeys (process_env (example_world [Some ''down''])) (baseEnvName \<lparr>baseEnvName = ''SOLO'', storage = Some DATABASE\<rparr>) = [''only'']"
    by (simp add: example_world_def load_module_def example_env_def getEnvKeys_def Boolean_def)
  show ?thesis
    using h single_candidate_fast_path [OF h] by simp
qed

subsection \<open>One rotation step when no operation fails\<close>



lemma attempt_no_fault: "faults w = [] \<Longrightarrow> attempt ev w = (None, w\<lparr>trace := trace w @ [ev]\<rparr>)"
  by (simp add: attempt_def)

lemma Cache_index_update [simp]: "c\<lparr>Cache.index := v\<rparr> = \<lparr>Cache.index = v\<rparr>"
  by (cases c) simp



lemma connectWithRetry_no_fault:
  assumes "faults w = []"
  shows "connectWithRetry u 5 w = (Inr (MongoClient u), w\<lparr>trace := trace w @ [Connect u]\<rparr>)"
  unfolding connectWithRetry_def using assms
  by (subst connectWithRetry_loop.simps) (simp add: attempt_no_fault)



lemma getNextEnvKey_try_multi:
  assumes "1 < length (getEnvKeys (process_env w) (baseEnvName p))"
  shows "getNextEnvKey_try p w =
           (case storage_or_default p of
              DATABASE \<Rightarrow> handleDatabaseStorage (getEnvKeys (process_env w) (baseEnvName p)) (baseEnvName p) w
            | MEMORY \<Rightarrow> (case handleMemoryStorage (getEnvKeys (process_env w) (baseEnvName p)) (baseEnvName p) w of
                          (r, w') \<Rightarrow> (Inr r, w'))
            | DISK \<Rightarrow> handleDiskStorage (getEnvKeys (process_env w) (baseEnvName p))
                        (cacheFilePath w (baseEnvName p)) w)"
proof -
  have a: "(length (getEnvKeys (process_env w) (baseEnvName p)) = 0) = False"
    "(length (getEnvKeys (process_env w) (baseEnvName p)) = 1) = False"
    using assms by auto
  show ?thesis
    unfolding getNextEnvKey_try_def Let_def a by simp
qed


subsection \<open>Consecutive calls\<close>




lemma example_keys: "getEnvKeys example_env ''API_KEY_'' = [''alpha'', ''beta'', ''gamma'']"
  by (simp add: getEnvKeys_def example_env_def Boolean_def)

lemma example_world_env [simp]: "process_env (example_world script) = example_env"
  by (simp add: example_world_def load_module_def)

lemma stale_world_env [simp]: "process_env stale_world = example_env"
  by (simp add: stale_world_def load_module_def)



subsection \<open>A cursor beyond the candidate list\<close>



subsection \<open>Connecting with retries\<close>

lemma faults_same: "faults w = fs \<Longrightarrow> w\<lparr>faults := fs\<rparr> = w"
  by auto

lemma attempt_eq:
  "attempt ev w = (next_fault w 0, w\<lparr>faults := tl (faults w), trace := trace w @ [ev]\<rparr>)"
proof (cases "faults w")
  case Nil
  then have "w\<lparr>faults := []\<rparr> = w" by (rule faults_same)
  then have "w\<lparr>faults := [], trace := trace w @ [ev]\<rparr> = w\<lparr>trace := trace w @ [ev]\<rparr>"
    by simp
  with Nil show ?thesis by (simp add: attempt_def next_fault_def)
next
  case (Cons f fs)
  then show ?thesis by (simp add: attempt_def next_fault_def)
qed

lemma connectWithRetry_loop_eq:
  "k \<le> a \<Longrightarrow>
   connectWithRetry_loop u a k w =
     (if failed_first w \<le> a - k
      then (Inr (MongoClient u),
            w\<lparr>faults := drop (Suc (failed_first w)) (faults w),
              trace := trace w @ concat (map (\<lambda>i. [Connect u, SetTimeout (1000 * i)]) [k..<k + failed_first w])
                       @ [Connect u]\<rparr>)
      else (Inl (Error (the (faults w ! (a - k)))),
            w\<lparr>faults := drop (Suc (a - k)) (faults w),
              trace := trace w @ concat (map (\<lambda>i. [Connect u, SetTimeout (1000 * i)]) [k..<a])
                       @ [Connect u]\<rparr>))"
proof (induction u a k w rule: connectWithRetry_loop.induct)
  case (1 u a k w)
  show ?case
  proof (cases "next_fault w 0")
    case None
    then have f: "failed_first w = 0"
      by (cases "faults w") (auto simp: failed_first_def next_fault_def)
    have d: "drop (Suc 0) (faults w) = tl (faults w)"
      by (simp add: drop_Suc)
    show ?thesis
      using "1.prems" None f d
      by (subst connectWithRetry_loop.simps) (simp add: attempt_eq)
  next
    case (Some m)
    then obtain fs where fs: "faults w = Some m # fs"
      by (cases "faults w") (auto simp: next_fault_def)
    define L where "L = length (takeWhile (\<lambda>f. f \<noteq> None) fs)"
    have f: "failed_first w = Suc L"
      using fs by (simp add: failed_first_def L_def)
    let ?w1 = "w\<lparr>faults := fs, trace := trace w @ [Connect u]\<rparr>"
    have a: "attempt (Connect u) w = (Some m, ?w1)"
      using fs Some by (simp add: attempt_eq)
    show ?thesis
    proof (cases "k < a")
      case True
      have ff: "failed_first (setTimeout (1000 * k) ?w1) = L"
        by (simp add: failed_first_def setTimeout_def L_def)
      have ih: "connectWithRetry_loop u a (k + 1) (setTimeout (1000 * k) ?w1) =
         (if failed_first (setTimeout (1000 * k) ?w1) \<le> a - (k + 1)
          then (Inr (MongoClient u),
            (setTimeout (1000 * k) ?w1)\<lparr>faults := drop (Suc (failed_first (setTimeout (1000 * k) ?w1))) (faults (setTimeout (1000 * k) ?w1)),
              trace := trace (setTimeout (1000 * k) ?w1) @ concat (map (\<lambda>i. [Connect u, SetTimeout (1000 * i)]) [k + 1..<k + 1 + failed_first (setTimeout (1000 * k) ?w1)])
                       @ [Connect u]\<rparr>)
          else (Inl (Error (the (faults (setTimeout (1000 * k) ?w1) ! (a - (k + 1))))),
            (setTimeout (1000 * k) ?w1)\<lparr>faults := drop (Suc (a - (k + 1))) (faults (setTimeout (1000 * k) ?w1)),
              trace := trace (setTimeout (1000 * k) ?w1) @ concat (map (\<lambda>i. [Connect u, SetTimeout (1000 * i)]) [k + 1..<a])
                       @ [Connect u]\<rparr>))"
        using "1.IH" [OF "1.prems" a [symmetric] refl True] True by simp
      have u1: "[k..<Suc (k + L)] = k # [Suc k..<Suc (k + L)]"
        by (simp add: upt_conv_Cons del: upt_Suc)
      have u2: "[k..<a] = k # [Suc k..<a]"
        using True by (simp add: upt_conv_Cons)
      have n: "(Some m # fs) ! (a - k) = fs ! (a - Suc k)"
      proof -
        have "a - k = Suc (a - Suc k)" using True by simp
        then show ?thesis by simp
      qed
      have le: "(Suc L \<le> a - k) = (L \<le> a - Suc k)"
        using True by auto
      have sd: "Suc (a - Suc k) = a - k" using True by simp
      have step: "connectWithRetry_loop u a k w =
                  connectWithRetry_loop u a (k + 1) (setTimeout (1000 * k) ?w1)"
        using "1.prems" True a by (subst connectWithRetry_loop.simps) simp
      show ?thesis
        unfolding step ih ff
        by (simp add: f fs setTimeout_def u1 u2 n le sd del: upt_Suc)
    next
      case False
      with "1.prems" have ka: "k = a" by simp
      show ?thesis
        using ka a f fs
        by (subst connectWithRetry_loop.simps) simp
    qed
  qed
qed

lemma connects_backoff_aux:
  "connects (concat (map (\<lambda>k. [Connect u, SetTimeout (1000 * k)]) ks) @ [Connect u]) = Suc (length ks)"
  by (induction ks) simp_all

lemma delays_backoff_aux:
  "delays (concat (map (\<lambda>k. [Connect u, SetTimeout (1000 * k)]) ks) @ [Connect u]) = map (\<lambda>k. 1000 * k) ks"
  by (induction ks) simp_all

lemma connects_backoff: "connects (backoff_trace u j) = Suc j"
  unfolding backoff_trace_def connects_backoff_aux by simp

lemma delays_backoff: "delays (backoff_trace u j) = map (\<lambda>k. 1000 * k) [1..<Suc j]"
  unfolding backoff_trace_def delays_backoff_aux by simp

lemma connectWithRetry_eq:
  "connectWithRetry u 5 w =
     (if failed_first w < 5
      then (Inr (MongoClient u),
            w\<lparr>faults := drop (Suc (failed_first w)) (faults w),
              trace := trace w @ backoff_trace u (failed_first w)\<rparr>)
      else (Inl (Error (the (faults w ! 4))),
            w\<lparr>faults := drop 5 (faults w), trace := trace w @ backoff_trace u 4\<rparr>))"
proof -
  have "(1::nat) \<le> 5" by simp
  note e = connectWithRetry_loop_eq [OF this, of u w]
  have l: "(failed_first w < 5) = (failed_first w \<le> 4)" by auto
  show ?thesis
    unfolding connectWithRetry_def e backoff_trace_def by (simp add: l del: upt_Suc)
qed

lemma events_of_append:
  "trace (snd (f w)) = trace w @ es \<Longrightarrow> events_of f w = es"
  by (simp add: events_of_def)

lemma connection_failure_try:
  assumes "1 < length (getEnvKeys (process_env w) (baseEnvName p))"
    and "storage_or_default p = DATABASE"
    and "dbUsername w \<noteq> []" "dbPassword w \<noteq> []" "dbName w \<noteq> []"
    and "client w = None" and "5 \<le> failed_first w"
  shows "getNextEnvKey_try p w =
           (Inl (Error (the (faults w ! 4))),
            w\<lparr>faults := drop 5 (faults w), trace := trace w @ backoff_trace (uri w) 4\<rparr>)"
  using assms
  by (simp add: getNextEnvKey_try_multi handleDatabaseStorage_def getFileIndexCollection_def
      connectToMongo_def connectWithRetry_eq)

text \<open>
  Claim C5, as amended. \<open>connectWithRetry\<close> with the budget of five makes
  \<open>min f 4 + 1\<close> attempts, where \<open>f\<close> is the number of attempts that fail in a row: at
  most five. After the failed attempt number \<open>k < 5\<close> it waits \<open>1000 * k\<close> milliseconds, so
  the delays are 1000, 2000, 3000, 4000 at most; no delay follows the fifth attempt.
  With fewer than five failures it returns the client. With five it gives up and throws
  the error of the fifth attempt, and \<open>getNextEnvKey\<close> (database storage, more than one
  candidate, credentials set, no cached client) returns the failure result with that
  error's message after exactly these events.
\<close>

theorem connect_retry_budget:
  "events_of (connectWithRetry u 5) w = backoff_trace u (min (failed_first w) 4)
   \<and> connects (events_of (connectWithRetry u 5) w) = Suc (min (failed_first w) 4)
   \<and> delays (events_of (connectWithRetry u 5) w) = map (\<lambda>k. 1000 * k) [1..<Suc (min (failed_first w) 4)]
   \<and> (failed_first w < 5 \<longrightarrow> fst (connectWithRetry u 5 w) = Inr (MongoClient u))
   \<and> (5 \<le> failed_first w \<longrightarrow> fst (connectWithRetry u 5 w) = Inl (Error (the (faults w ! 4))))
   \<and> (5 \<le> failed_first w \<and> 1 < length (getEnvKeys (process_env w) (baseEnvName p))
        \<and> storage_or_default p = DATABASE
        \<and> dbUsername w \<noteq> [] \<and> dbPassword w \<noteq> [] \<and> dbName w \<noteq> [] \<and> client w = None \<longrightarrow>
        fst (getNextEnvKey p w) = \<lparr>key = Some '''', index = 0, message = ''Error: '' @ the (faults w ! 4)\<rparr>
        \<and> events_of (getNextEnvKey p) w = backoff_trace (uri w) 4)"
proof -
  have t: "trace (snd (connectWithRetry u 5 w)) = trace w @ backoff_trace u (min (failed_first w) 4)"
    by (simp add: connectWithRetry_eq min_def)
  have e: "events_of (connectWithRetry u 5) w = backoff_trace u (min (failed_first w) 4)"
    using t by (rule events_of_append)
  have r: "failed_first w < 5 \<longrightarrow> fst (connectWithRetry u 5 w) = Inr (MongoClient u)"
    "5 \<le> failed_first w \<longrightarrow> fst (connectWithRetry u 5 w) = Inl (Error (the (faults w ! 4)))"
    by (simp_all add: connectWithRetry_eq)
  have g: "5 \<le> failed_first w \<and> 1 < length (getEnvKeys (process_env w) (baseEnvName p))
        \<and> storage_or_default p = DATABASE
        \<and> dbUsername w \<noteq> [] \<and> dbPassword w \<noteq> [] \<and> dbName w \<noteq> [] \<and> client w = None \<longrightarrow>
        fst (getNextEnvKey p w) = \<lparr>key = Some '''', index = 0, message = ''Error: '' @ the (faults w ! 4)\<rparr>
        \<and> events_of (getNextEnvKey p) w = backoff_trace (uri w) 4"
    by (auto simp: getNextEnvKey_def connection_failure_try events_of_def)
  show ?thesis
    using e r g by (simp add: connects_backoff delays_backoff del: upt_Suc)
qed

lemma all_down_world:
  "failed_first (example_world all_down) = 5"
  "faults (example_world all_down) ! 4 = Some ''down 5''"
  "client (example_world all_down) = None"
  "dbUsername (example_world all_down) = ''user''"
  "dbPassword (example_world all_down) = ''secret''"
  "dbName (example_world all_down) = ''defaultDbName''"
  by (simp_all add: failed_first_def example_world_def load_module_def all_down_def env_or_def example_env_def)

lemma upt_1_5: "[Suc 0..<5] = [1, 2, 3, 4]"
  by code_simp

theorem connect_retry_budget_witness:
  "fst (getNextEnvKey \<lparr>baseEnvName = ''API_KEY_'', storage = None\<rparr> (example_world all_down))
     = \<lparr>key = Some '''', index = 0, message = ''Error: down 5''\<rparr>
   \<and> connects (events_of (getNextEnvKey \<lparr>baseEnvName = ''API_KEY_'', storage = None\<rparr>) (example_world all_down)) = 5
   \<and> delays (events_of (getNextEnvKey \<lparr>baseEnvName = ''API_KEY_'', storage = None\<rparr>) (example_world all_down))
     = [1000, 2000, 3000, 4000]"
  using connect_retry_budget [of "uri (example_world all_down)" "example_world all_down"
      "\<lparr>baseEnvName = ''API_KEY_'', storage = None\<rparr>"]
  by (simp add: all_down_world example_keys storage_or_default_def connects_backoff delays_backoff upt_1_5)

text \<open>
  Claim C5 as stated lists delays up to five units. When all five attempts fail the
  delays are 1000, 2000, 3000 and 4000: a delay of 5000 is never requested.
\<close>

theorem no_delay_after_fifth_attempt:
  "delays (events_of (connectWithRetry ''srv'' 5) (example_world all_down)) = [1000, 2000, 3000, 4000]
   \<and> 5000 \<notin> set (delays (events_of (connectWithRetry ''srv'' 5) (example_world all_down)))
   \<and> connects (events_of (connectWithRetry ''srv'' 5) (example_world all_down)) = 5
   \<and> fst (connectWithRetry ''srv'' 5 (example_world all_down)) = Inl (Error ''down 5'')"
proof -
  have "events_of (connectWithRetry ''srv'' 5) (example_world all_down) = backoff_trace ''srv'' 4"
    by (rule events_of_append) (simp add: connectWithRetry_eq all_down_world)
  moreover have "fst (connectWithRetry ''srv'' 5 (example_world all_down)) = Inl (Error ''down 5'')"
    by (simp add: connectWithRetry_eq all_down_world)
  ultimately show ?thesis
    by (simp add: connects_backoff delays_backoff upt_1_5)
qed

subsection \<open>The file backend under failures\<close>

lemma next_fault_tl [simp]:
  "next_fault (w\<lparr>faults := tl (faults w), trace := t\<rparr>) k = next_fault w (Suc k)"
  by (cases "faults w") (simp_all add: next_fault_def)

lemma JSON_parse_Inl [simp]: "(JSON_parse c = Inl e) = (c = Malformed \<and> e = Error ''Unexpected token in JSON'')"
  by (cases c) auto

lemma cache_read_fails_iff:
  "cache_read_fails path w \<longleftrightarrow>
     next_fault w 0 \<noteq> None \<or> files w path = None \<or> files w path = Some Malformed"
  by (auto simp: cache_read_fails_def fs_readFile_def attempt_eq
      split: option.splits sum.splits file_content.splits)

lemma handleDiskStorage_eq:
  assumes "1 < length ks"
  shows "handleDiskStorage ks path w =
           (let i = (if cache_read_fails path w then 0
                     else (case files w path of Some (Json c) \<Rightarrow> Cache.index c | _ \<Rightarrow> 0));
                i' = js_rem (i + 1) (int (length ks));
                w2 = w\<lparr>faults := tl (tl (faults w)),
                       trace := trace w @ [ReadFile path, WriteFile path (Json \<lparr>Cache.index = i'\<rparr>)]\<rparr>
            in case next_fault w 1 of
                 Some m \<Rightarrow> (Inl (Error m), w2)
               | None \<Rightarrow> (Inr \<lparr>key = js_index ks i, index = i', message = success_message DISK i'\<rparr>,
                           w2\<lparr>files := (files w)(path \<mapsto> Json \<lparr>Cache.index = i'\<rparr>)\<rparr>))"
  using assms
  by (auto simp: handleDiskStorage_def fs_readFile_def fs_writeFile_def attempt_eq Let_def
      cache_read_fails_iff JSON_stringify_def success_message_def backend_name_def
      split: option.splits file_content.splits)





subsection \<open>Failures at the public boundary\<close>

lemma next_fault_alt: "next_fault w k = fault_at (faults w) k"
  by (simp add: next_fault_def fault_at_def)

lemma fault_at_tl [simp]: "fault_at (tl fs) k = fault_at fs (Suc k)"
  by (cases fs) (simp_all add: fault_at_def)

lemma no_candidates_try:
  assumes "getEnvKeys (process_env w) (baseEnvName p) = []"
  shows "getNextEnvKey_try p w =
           (Inl (Error (''No environment variables found with base name '' @ baseEnvName p @ ''.'')), w)"
  using assms by (simp add: getNextEnvKey_try_def)

lemma missing_credentials_try:
  assumes "1 < length (getEnvKeys (process_env w) (baseEnvName p))"
    and "storage_or_default p = DATABASE"
    and "dbUsername w = [] \<or> dbPassword w = [] \<or> dbName w = []"
  shows "getNextEnvKey_try p w =
           (Inl (Error ''DB_USERNAME, DB_PASSWORD, and DB_NAME environment variables must be set for database storage.''), w)"
  using assms by (auto simp: getNextEnvKey_try_multi handleDatabaseStorage_def)

lemma handleDatabaseStorage_connected:
  assumes "1 < length ks"
    and "dbUsername w \<noteq> []" "dbPassword w \<noteq> []" "dbName w \<noteq> []"
    and "client w \<noteq> None" "db w \<noteq> None"
  shows "fst (handleDatabaseStorage ks base w) =
           (case next_fault w 0 of
              Some m \<Rightarrow> Inl (Error m)
            | None \<Rightarrow>
                (case fileIndex w (''envCache_'' @ base) of
                   None \<Rightarrow>
                     (case next_fault w 1 of
                        Some m \<Rightarrow> Inl (Error m)
                      | None \<Rightarrow>
                          (case next_fault w 2 of
                             Some m \<Rightarrow> Inl (Error m)
                           | None \<Rightarrow> Inr \<lparr>key = js_index ks 0, index = js_rem 1 (int (length ks)),
                                            message = success_message DATABASE (js_rem 1 (int (length ks)))\<rparr>))
                 | Some i \<Rightarrow>
                     (case next_fault w 1 of
                        Some m \<Rightarrow> Inl (Error m)
                      | None \<Rightarrow> Inr \<lparr>key = js_index ks i, index = js_rem (i + 1) (int (length ks)),
                                       message = success_message DATABASE (js_rem (i + 1) (int (length ks)))\<rparr>)))"
  using assms
  by (auto simp: handleDatabaseStorage_def getFileIndexCollection_def connectToMongo_def
      findOne_def insertOne_def updateOne_def attempt_eq next_fault_alt Let_def
      success_message_def backend_name_def numeral_2_eq_2
      split: option.splits)

lemma getNextEnvKey_failure:
  "fst (getNextEnvKey_try p w) = Inl e \<Longrightarrow> fst (getNextEnvKey p w) = failure_result (error_message e)"
  by (auto simp: getNextEnvKey_def failure_result_def split: prod.splits sum.splits)

lemma database_operation_failure:
  assumes "1 < length (getEnvKeys (process_env w) (baseEnvName p))"
    and "storage_or_default p = DATABASE"
    and "dbUsername w \<noteq> []" "dbPassword w \<noteq> []" "dbName w \<noteq> []"
    and "client w \<noteq> None" "db w \<noteq> None"
    and "k < (if fileIndex w (''envCache_'' @ baseEnvName p) = None then 3 else 2)"
    and "next_fault w k = Some m" and "\<forall>j<k. next_fault w j = None"
  shows "fst (getNextEnvKey_try p w) = Inl (Error m)"
proof -
  have t: "fst (getNextEnvKey_try p w) =
      fst (handleDatabaseStorage (getEnvKeys (process_env w) (baseEnvName p)) (baseEnvName p) w)"
    using assms(1,2) by (simp add: getNextEnvKey_try_multi)
  note c = handleDatabaseStorage_connected [OF assms(1,3,4,5,6,7), of "baseEnvName p"]
  consider "k = 0" | "k = 1" | "k = 2" "fileIndex w (''envCache_'' @ baseEnvName p) = None"
  proof (cases "fileIndex w (''envCache_'' @ baseEnvName p) = None")
    case True
    with assms(8) have "k < 3" by simp
    then have "k = 0 \<or> k = 1 \<or> k = 2" by arith
    with True that show ?thesis by blast
  next
    case False
    with assms(8) have "k < 2" by auto
    then have "k = 0 \<or> k = 1" by arith
    with that show ?thesis by blast
  qed
  then show ?thesis
  proof cases
    case 1
    then show ?thesis using assms(9) by (simp add: t c)
  next
    case 2
    then have "next_fault w 0 = None" "next_fault w 1 = Some m"
      using assms(9,10) by simp_all
    then show ?thesis by (simp add: t c split: option.splits)
  next
    case 3
    then have "next_fault w 0 = None" "next_fault w 1 = None" "next_fault w 2 = Some m"
      using assms(9,10) by simp_all
    then show ?thesis using 3 by (simp add: t c)
  qed
qed

lemma file_write_failure:
  assumes "1 < length (getEnvKeys (process_env w) (baseEnvName p))"
    and "storage_or_default p = DISK"
    and "next_fault w 1 = Some m"
  shows "fst (getNextEnvKey_try p w) = Inl (Error m)"
  using assms by (simp add: getNextEnvKey_try_multi handleDiskStorage_eq Let_def)

text \<open>
  Claim C1. \<open>getNextEnvKey\<close> is a total function into results: whatever error \<open>e\<close> the
  body of its \<^verbatim>\<open>try\<close> block throws, the call returns the empty key, index 0 and the
  message \<^verbatim>\<open>Error: \<close> followed by the message of \<open>e\<close>. The body throws, and the call
  returns that result, in each of the named cases: no candidates; database storage with
  an empty user name, password or database name; five connection attempts that fail in
  a row; a \<^verbatim>\<open>findOne\<close>, \<^verbatim>\<open>insertOne\<close> or \<^verbatim>\<open>updateOne\<close> that throws (operation
  number \<open>k\<close> of the two or three that the handler performs, the earlier ones having
  run); a \<^verbatim>\<open>fs.writeFile\<close> that throws.
\<close>

theorem failures_become_error_results:
  "(fst (getNextEnvKey_try p w) = Inl e \<longrightarrow>
      fst (getNextEnvKey p w) = failure_result (error_message e))
   \<and> (getEnvKeys (process_env w) (baseEnvName p) = [] \<longrightarrow>
      fst (getNextEnvKey p w) =
        failure_result (''No environment variables found with base name '' @ baseEnvName p @ ''.''))
   \<and> (1 < length (getEnvKeys (process_env w) (baseEnvName p)) \<and> storage_or_default p = DATABASE
        \<and> (dbUsername w = [] \<or> dbPassword w = [] \<or> dbName w = []) \<longrightarrow>
      fst (getNextEnvKey p w) =
        failure_result ''DB_USERNAME, DB_PASSWORD, and DB_NAME environment variables must be set for database storage.'')
   \<and> (1 < length (getEnvKeys (process_env w) (baseEnvName p)) \<and> storage_or_default p = DATABASE
        \<and> dbUsername w \<noteq> [] \<and> dbPassword w \<noteq> [] \<and> dbName w \<noteq> []
        \<and> client w = None \<and> 5 \<le> failed_first w \<longrightarrow>
      fst (getNextEnvKey p w) = failure_result (the (faults w ! 4)))
   \<and> (1 < length (getEnvKeys (process_env w) (baseEnvName p)) \<and> storage_or_default p = DATABASE
        \<and> dbUsername w \<noteq> [] \<and> dbPassword w \<noteq> [] \<and> dbName w \<noteq> []
        \<and> client w \<noteq> None \<and> db w \<noteq> None
        \<and> k < (if fileIndex w (''envCache_'' @ baseEnvName p) = None then 3 else 2)
        \<and> next_fault w k = Some m \<and> (\<forall>j<k. next_fault w j = None) \<longrightarrow>
      fst (getNextEnvKey p w) = failure_result m)
   \<and> (1 < length (getEnvKeys (process_env w) (baseEnvName p)) \<and> storage_or_default p = DISK
        \<and> next_fault w 1 = Some m \<longrightarrow>
      fst (getNextEnvKey p w) = failure_result m)"
proof (intro conjI impI)
  assume "fst (getNextEnvKey_try p w) = Inl e"
  then show "fst (getNextEnvKey p w) = failure_result (error_message e)"
    by (rule getNextEnvKey_failure)
next
  assume "getEnvKeys (process_env w) (baseEnvName p) = []"
  then show "fst (getNextEnvKey p w) =
      failure_result (''No environment variables found with base name '' @ baseEnvName p @ ''.'')"
    using getNextEnvKey_failure [of p w] by (simp add: no_candidates_try)
next
  assume "1 < length (getEnvKeys (process_env w) (baseEnvName p)) \<and> storage_or_default p = DATABASE
        \<and> (dbUsername w = [] \<or> dbPassword w = [] \<or> dbName w = [])"
  then show "fst (getNextEnvKey p w) =
      failure_result ''DB_USERNAME, DB_PASSWORD, and DB_NAME environment variables must be set for database storage.''"
    using getNextEnvKey_failure [of p w] by (simp add: missing_credentials_try)
next
  assume "1 < length (getEnvKeys (process_env w) (baseEnvName p)) \<and> storage_or_default p = DATABASE
        \<and> dbUsername w \<noteq> [] \<and> dbPassword w \<noteq> [] \<and> dbName w \<noteq> []
        \<and> client w = None \<and> 5 \<le> failed_first w"
  then show "fst (getNextEnvKey p w) = failure_result (the (faults w ! 4))"
    using getNextEnvKey_failure [of p w] by (simp add: connection_failure_try)
next
  assume "1 < length (getEnvKeys (process_env w) (baseEnvName p)) \<and> storage_or_default p = DATABASE
        \<and> dbUsername w \<noteq> [] \<and> dbPassword w \<noteq> [] \<and> dbName w \<noteq> []
        \<and> client w \<noteq> None \<and> db w \<noteq> None
        \<and> k < (if fileIndex w (''envCache_'' @ baseEnvName p) = None then 3 else 2)
        \<and> next_fault w k = Some m \<and> (\<forall>j<k. next_fault w j = None)"
  then have "fst (getNextEnvKey_try p w) = Inl (Error m)"
    by (intro database_operation_failure [where k = k and m = m]) simp_all
  then show "fst (getNextEnvKey p w) = failure_result m"
    using getNextEnvKey_failure [of p w] by simp
next
  assume "1 < length (getEnvKeys (process_env w) (baseEnvName p)) \<and> storage_or_default p = DISK
        \<and> next_fault w 1 = Some m"
  then have "fst (getNextEnvKey_try p w) = Inl (Error m)"
    by (intro file_write_failure [where m = m]) simp_all
  then show "fst (getNextEnvKey p w) = failure_result m"
    using getNextEnvKey_failure [of p w] by simp
qed

lemma example_world_fields:
  "dbUsername (example_world script) = ''user''"
  "dbPassword (example_world script) = ''secret''"
  "dbName (example_world script) = ''defaultDbName''"
  "client (example_world script) = None"
  "faults (example_world script) = script"
  "fileIndex (example_world script) = Map.empty"
  by (simp_all add: example_world_def load_module_def env_or_def example_env_def)

lemma connected_world_fields:
  "process_env (connected_world script) = example_env"
  "dbUsername (connected_world script) = ''user''"
  "dbPassword (connected_world script) = ''secret''"
  "dbName (connected_world script) = ''defaultDbName''"
  "client (connected_world script) = Some (MongoClient ''srv'')"
  "db (connected_world script) = Some (Db ''defaultDbName'')"
  "faults (connected_world script) = script"
  "fileIndex (connected_world script) = Map.empty"
  by (simp_all add: connected_world_def example_world_fields)

lemma bare_world_fields:
  "getEnvKeys (process_env bare_world) ''TOKEN_'' = [''one'', ''two'']"
  "dbUsername bare_world = []"
  by (simp_all add: bare_world_def load_module_def env_or_def getEnvKeys_def Boolean_def)

theorem failures_become_error_results_witness:
  "fst (getNextEnvKey \<lparr>baseEnvName = ''NOPE'', storage = Some MEMORY\<rparr> (example_world []))
     = \<lparr>key = Some '''', index = 0,
         message = ''Error: No environment variables found with base name NOPE.''\<rparr>
   \<and> fst (getNextEnvKey \<lparr>baseEnvName = ''TOKEN_'', storage = None\<rparr> bare_world)
     = \<lparr>key = Some '''', index = 0,
         message = ''Error: DB_USERNAME, DB_PASSWORD, and DB_NAME environment variables must be set for database storage.''\<rparr>
   \<and> fst (getNextEnvKey \<lparr>baseEnvName = ''API_KEY_'', storage = None\<rparr> (example_world all_down))
     = \<lparr>key = Some '''', index = 0, message = ''Error: down 5''\<rparr>
   \<and> fst (getNextEnvKey \<lparr>baseEnvName = ''API_KEY_'', storage = Some DATABASE\<rparr>
            (connected_world [None, Some ''not primary'']))
     = \<lparr>key = Some '''', index = 0, message = ''Error: not primary''\<rparr>
   \<and> fst (getNextEnvKey \<lparr>baseEnvName = ''API_KEY_'', storage = Some DISK\<rparr>
            (example_world [Some ''ENOENT'', Some ''EACCES'']))
     = \<lparr>key = Some '''', index = 0, message = ''Error: EACCES''\<rparr>"
proof -
  have a: "fst (getNextEnvKey \<lparr>baseEnvName = ''NOPE'', storage = Some MEMORY\<rparr> (example_world []))
     = failure_result ''No environment variables found with base name NOPE.''"
    using failures_become_error_results
      [of "\<lparr>baseEnvName = ''NOPE'', storage = Some MEMORY\<rparr>" "example_world []"]
    by (simp add: getEnvKeys_def example_env_def Boolean_def)
  have b: "fst (getNextEnvKey \<lparr>baseEnvName = ''TOKEN_'', storage = None\<rparr> bare_world)
     = failure_result ''DB_USERNAME, DB_PASSWORD, and DB_NAME environment variables must be set for database storage.''"
    using failures_become_error_results [of "\<lparr>baseEnvName = ''TOKEN_'', storage = None\<rparr>" bare_world]
    by (simp add: bare_world_fields storage_or_default_def)
  have c: "fst (getNextEnvKey \<lparr>baseEnvName = ''API_KEY_'', storage = None\<rparr> (example_world all_down))
     = failure_result ''down 5''"
    using failures_become_error_results
      [of "\<lparr>baseEnvName = ''API_KEY_'', storage = None\<rparr>" "example_world all_down"]
    by (simp add: all_down_world example_keys storage_or_default_def)
  have d: "fst (getNextEnvKey \<lparr>baseEnvName = ''API_KEY_'', storage = Some DATABASE\<rparr>
            (connected_world [None, Some ''not primary'']))
     = failure_result ''not primary''"
    using failures_become_error_results
      [of "\<lparr>baseEnvName = ''API_KEY_'', storage = Some DATABASE\<rparr>"
          "connected_world [None, Some ''not primary'']" _ 1 "''not primary''"]
    by (simp add: connected_world_fields example_keys storage_or_default_def next_fault_def)
  have e: "fst (getNextEnvKey \<lparr>baseEnvName = ''API_KEY_'', storage = Some DISK\<rparr>
            (example_world [Some ''ENOENT'', Some ''EACCES'']))
     = failure_result ''EACCES''"
    using failures_become_error_results
      [of "\<lparr>baseEnvName = ''API_KEY_'', storage = Some DISK\<rparr>"
          "example_world [Some ''ENOENT'', Some ''EACCES'']" _ _ "''EACCES''"]
    by (simp add: example_world_fields example_keys storage_or_default_def next_fault_def)
  show ?thesis
    using a b c d e by (simp add: failure_result_def)
qed

subsection \<open>The credential check\<close>

text \<open>
  Claim C4 at an environment that sets \<^verbatim>\<open>DB_USERNAME\<close> and \<^verbatim>\<open>DB_PASSWORD\<close> and does
  not set \<^verbatim>\<open>DB_NAME\<close>: the module constant \<open>dbName\<close> is the fallback
  \<^verbatim>\<open>defaultDbName\<close>, the check of \<open>handleDatabaseStorage\<close> passes, the handler connects
  and the call succeeds. (An empty user name, password or database name does raise the
  error: see the third part of the theorem of claim C1.)
\<close>

theorem unset_DB_NAME_passes_the_check:
  "map_of (process_env (example_world [])) ''DB_NAME'' = None
   \<and> dbName (example_world []) = ''defaultDbName''
   \<and> fst (getNextEnvKey \<lparr>baseEnvName = ''API_KEY_'', storage = Some DATABASE\<rparr> (example_world []))
     = \<lparr>key = Some ''alpha'', index = 1,
         message = ''Successfully retrieved the key and updated the database cache. Current index: 1''\<rparr>
   \<and> events_of (getNextEnvKey \<lparr>baseEnvName = ''API_KEY_'', storage = Some DATABASE\<rparr>) (example_world [])
     = [Connect (uri (example_world [])), FindOne ''envCache_API_KEY_'',
        InsertOne ''envCache_API_KEY_'' 0, UpdateOne ''envCache_API_KEY_'' 1]"
proof -
  let ?p = "\<lparr>baseEnvName = ''API_KEY_'', storage = Some DATABASE\<rparr>"
  have n: "1 < length (getEnvKeys (process_env (example_world [])) (baseEnvName ?p))"
    by (simp add: example_keys)
  have r: "js_rem 1 3 = 1" by (simp add: js_rem_def)
  have t: "getNextEnvKey_try ?p (example_world []) =
      handleDatabaseStorage [''alpha'', ''beta'', ''gamma''] ''API_KEY_'' (example_world [])"
    using n by (simp add: getNextEnvKey_try_multi storage_or_default_def example_keys)
  have h: "handleDatabaseStorage [''alpha'', ''beta'', ''gamma''] ''API_KEY_'' (example_world []) =
      (Inr \<lparr>key = Some ''alpha'', index = 1,
             message = ''Successfully retrieved the key and updated the database cache. Current index: 1''\<rparr>,
       (example_world [])
         \<lparr>trace := [Connect (uri (example_world [])), FindOne ''envCache_API_KEY_'',
                     InsertOne ''envCache_API_KEY_'' 0, UpdateOne ''envCache_API_KEY_'' 1],
          client := Some (MongoClient (uri (example_world []))),
          db := Some (Db ''defaultDbName''),
          fileIndex := [''envCache_API_KEY_'' \<mapsto> 1]\<rparr>)"
    by (simp add: handleDatabaseStorage_def getFileIndexCollection_def connectToMongo_def
        connectWithRetry_no_fault findOne_def insertOne_def updateOne_def attempt_no_fault
        example_world_fields js_index_def r number_toString_def digits_of.simps digit_char_def
        example_world_def load_module_def env_or_def example_env_def)
  show ?thesis
    by (simp add: getNextEnvKey_def t h events_of_def example_world_fields)
       (simp add: example_world_def load_module_def example_env_def)
qed

subsection \<open>The stored cursor stays in range\<close>
















end
